theory Spec2Isabelle
  imports Main "HOL-Library.Word" "HOL-Library.Signed_Division" "HOL-Library.Monad_Syntax"
begin

unbundle bit_operations_syntax

section \<open>Fixed-point simplex noise (noise.go)\<close>

text \<open>
  The Go types of the file are modelled as machine words: \<open>uint8\<close>, \<open>int16\<close>,
  \<open>int32\<close> and \<open>int64\<close> are words of 8, 16, 32 and 64 bits. Addition, subtraction,
  multiplication and negation wrap around, as Go's do. Go's \<open>>>\<close> on a signed integer is
  the arithmetic shift \<open>signed_drop_bit\<close>, \<open><<\<close> is \<open>push_bit\<close>, \<open>&\<close> is \<open>AND\<close>. A
  conversion to a wider signed type is \<open>scast\<close>, a conversion from \<open>uint8\<close> and a
  truncating conversion to a narrower type is \<open>ucast\<close>. Signed comparisons are \<open><s\<close> and
  \<open>\<le>s\<close>; \<open>uint8\<close> comparisons are the unsigned \<open><\<close>.

  The two run-time panics that the operations of the file can raise in Go, an array index
  out of range and an integer division by zero, are the value \<open>None\<close>.
\<close>

type_synonym uint8 = "8 word"
type_synonym int16 = "16 word"
type_synonym int32 = "32 word"
type_synonym int64 = "64 word"

subsection \<open>Conversions\<close>

text \<open>Go's conversions \<open>int64(v)\<close>, \<open>int32(v)\<close> and \<open>int16(v)\<close>, at the types they are used at.\<close>

abbreviation to_int64 :: "int32 \<Rightarrow> int64" where
  "to_int64 v \<equiv> scast v"

abbreviation to_int32 :: "int64 \<Rightarrow> int32" where
  "to_int32 v \<equiv> ucast v"

abbreviation uint8_to_int32 :: "uint8 \<Rightarrow> int32" where
  "uint8_to_int32 v \<equiv> ucast v"

abbreviation to_int16 :: "int32 \<Rightarrow> int16" where
  "to_int16 v \<equiv> ucast v"

subsection \<open>Permutation table\<close>

text \<open>The table \<open>perm\<close>, laid out as in the source.\<close>

definition perm :: "uint8 list" where
  "perm = [
     151, 160, 137, 91, 90, 15,
     131, 13, 201, 95, 96, 53, 194, 233, 7, 225, 140, 36, 103, 30, 69, 142, 8, 99, 37, 240, 21, 10, 23,
     190, 6, 148, 247, 120, 234, 75, 0, 26, 197, 62, 94, 252, 219, 203, 117, 35, 11, 32, 57, 177, 33,
     88, 237, 149, 56, 87, 174, 20, 125, 136, 171, 168, 68, 175, 74, 165, 71, 134, 139, 48, 27, 166,
     77, 146, 158, 231, 83, 111, 229, 122, 60, 211, 133, 230, 220, 105, 92, 41, 55, 46, 245, 40, 244,
     102, 143, 54, 65, 25, 63, 161, 1, 216, 80, 73, 209, 76, 132, 187, 208, 89, 18, 169, 200, 196,
     135, 130, 116, 188, 159, 86, 164, 100, 109, 198, 173, 186, 3, 64, 52, 217, 226, 250, 124, 123,
     5, 202, 38, 147, 118, 126, 255, 82, 85, 212, 207, 206, 59, 227, 47, 16, 58, 17, 182, 189, 28, 42,
     223, 183, 170, 213, 119, 248, 152, 2, 44, 154, 163, 70, 221, 153, 101, 155, 167, 43, 172, 9,
     129, 22, 39, 253, 19, 98, 108, 110, 79, 113, 224, 232, 178, 185, 112, 104, 218, 246, 97, 228,
     251, 34, 242, 193, 238, 210, 144, 12, 191, 179, 162, 241, 81, 51, 145, 235, 249, 14, 239, 107,
     49, 192, 214, 31, 181, 199, 106, 157, 184, 84, 204, 176, 115, 121, 50, 45, 127, 4, 150, 254,
     138, 236, 205, 93, 222, 114, 67, 29, 24, 72, 243, 141, 128, 195, 78, 66, 215, 61, 156, 180]"

text \<open>
  \<open>perm[idx]\<close> for an \<open>int32\<close> index: Go checks the index against the bounds of the
  array at run time and panics outside them.
\<close>

definition perm_at :: "int32 \<Rightarrow> uint8 option" where
  "perm_at idx =
     (if 0 \<le> sint idx \<and> sint idx < int (length perm)
      then Some (perm ! nat (sint idx)) else None)"

text \<open>
  Go's \<open>/\<close> on \<open>int32\<close>: the quotient is truncated towards zero, and a zero divisor
  panics.
\<close>

definition div_int32 :: "int32 \<Rightarrow> int32 \<Rightarrow> int32 option" where
  "div_int32 a b = (if b = 0 then None else Some (word_of_int (sint a sdiv sint b)))"

text \<open>The reference sequence of the specification, as natural numbers.\<close>

definition documented_sequence :: "nat list" where
  "documented_sequence = [
     151, 160, 137, 91, 90, 15, 131, 13, 201, 95, 96, 53, 194, 233, 7, 225,
     140, 36, 103, 30, 69, 142, 8, 99, 37, 240, 21, 10, 23, 190, 6, 148,
     247, 120, 234, 75, 0, 26, 197, 62, 94, 252, 219, 203, 117, 35, 11, 32,
     57, 177, 33, 88, 237, 149, 56, 87, 174, 20, 125, 136, 171, 168, 68, 175,
     74, 165, 71, 134, 139, 48, 27, 166, 77, 146, 158, 231, 83, 111, 229, 122,
     60, 211, 133, 230, 220, 105, 92, 41, 55, 46, 245, 40, 244, 102, 143, 54,
     65, 25, 63, 161, 1, 216, 80, 73, 209, 76, 132, 187, 208, 89, 18, 169,
     200, 196, 135, 130, 116, 188, 159, 86, 164, 100, 109, 198, 173, 186, 3, 64,
     52, 217, 226, 250, 124, 123, 5, 202, 38, 147, 118, 126, 255, 82, 85, 212,
     207, 206, 59, 227, 47, 16, 58, 17, 182, 189, 28, 42, 223, 183, 170, 213,
     119, 248, 152, 2, 44, 154, 163, 70, 221, 153, 101, 155, 167, 43, 172, 9,
     129, 22, 39, 253, 19, 98, 108, 110, 79, 113, 224, 232, 178, 185, 112, 104,
     218, 246, 97, 228, 251, 34, 242, 193, 238, 210, 144, 12, 191, 179, 162, 241,
     81, 51, 145, 235, 249, 14, 239, 107, 49, 192, 214, 31, 181, 199, 106, 157,
     184, 84, 204, 176, 115, 121, 50, 45, 127, 4, 150, 254, 138, 236, 205, 93,
     222, 114, 67, 29, 24, 72, 243, 141, 128, 195, 78, 66, 215, 61, 156, 180]"

subsection \<open>Gradient functions\<close>

definition q :: "bool \<Rightarrow> int32 \<Rightarrow> int32 \<Rightarrow> int32" where
  "q cond v1 v2 = (if cond then v1 else v2)"

definition grad1 :: "uint8 \<Rightarrow> int32 \<Rightarrow> int32" where
  "grad1 hash x =
     (let h = hash AND 15;
          grad = uint8_to_int32 (1 + (h AND 7));
          grad = (if h AND 8 \<noteq> 0 then - grad else grad)
      in grad * x)"

definition grad2 :: "uint8 \<Rightarrow> int32 \<Rightarrow> int32 \<Rightarrow> int32" where
  "grad2 hash x y =
     (let h = hash AND 7;
          u = q (h < 4) x y;
          v = q (h < 4) y x
      in q (h AND 1 \<noteq> 0) (- u) u + q (h AND 2 \<noteq> 0) (- 2 * v) (2 * v))"

definition grad3 :: "uint8 \<Rightarrow> int32 \<Rightarrow> int32 \<Rightarrow> int32 \<Rightarrow> int32" where
  "grad3 hash x y z =
     (let h = hash AND 15;
          u = q (h < 8) x y;
          v = q (h < 4) y (q (h = 12 \<or> h = 14) x z)
      in q (h AND 1 \<noteq> 0) (- u) u + q (h AND 2 \<noteq> 0) (- v) v)"

subsection \<open>1D simplex noise\<close>

definition Noise1 :: "int32 \<Rightarrow> int16 option" where
  "Noise1 x =
     (let i0 = signed_drop_bit 12 x;
          i1 = i0 + 1;
          x0 = x AND 0xfff;
          x1 = x0 - 0x1000;
          t0 = 0x8000 - signed_drop_bit 9 (x0 * x0);
          t0 = signed_drop_bit 15 (t0 * t0);
          t0 = signed_drop_bit 15 (t0 * t0)
      in do {
        h0 \<leftarrow> perm_at (i0 AND 0xff);
        let n0 = signed_drop_bit 12 (t0 * grad1 h0 x0);
        let t1 = 0x8000 - signed_drop_bit 9 (x1 * x1);
        let t1 = signed_drop_bit 15 (t1 * t1);
        let t1 = signed_drop_bit 15 (t1 * t1);
        h1 \<leftarrow> perm_at (i1 AND 0xff);
        let n1 = signed_drop_bit 12 (t1 * grad1 h1 x1);
        let n = n0 + n1;
        let n = n + 2503;
        n \<leftarrow> div_int32 (push_bit 14 n) 40225;
        Some (to_int16 n)
      })"

subsection \<open>2D simplex noise\<close>

definition F2 :: int64 where
  "F2 = 1572067135"

definition G2 :: int64 where
  "G2 = 907633384"

definition Noise2 :: "int32 \<Rightarrow> int32 \<Rightarrow> int16 option" where
  "Noise2 x y =
     (let s = to_int32 (signed_drop_bit 32 ((to_int64 x + to_int64 y) * F2));
          i = signed_drop_bit 11 (signed_drop_bit 1 x + signed_drop_bit 1 s);
          j = signed_drop_bit 11 (signed_drop_bit 1 y + signed_drop_bit 1 s);
          t = (to_int64 i + to_int64 j) * G2;
          X0 = push_bit 32 (to_int64 i) - t;
          Y0 = push_bit 32 (to_int64 j) - t;
          x0 = push_bit 20 (to_int64 x) - X0;
          y0 = push_bit 20 (to_int64 y) - Y0;
          (i1, j1) = (if y0 <s x0 then (1, 0) else (0, 1));
          x1 = x0 - push_bit 32 (to_int64 i1) + G2;
          y1 = y0 - push_bit 32 (to_int64 j1) + G2;
          x2 = x0 - push_bit 32 1 + 2 * G2;
          y2 = y0 - push_bit 32 1 + 2 * G2
      in do {
        let t0 = to_int32 (signed_drop_bit 16 (push_bit 31 1
                   - signed_drop_bit 16 x0 * signed_drop_bit 16 x0
                   - signed_drop_bit 16 y0 * signed_drop_bit 16 y0));
        n0 \<leftarrow> (if 0 <s t0 then do {
            let t0 = signed_drop_bit 16 (t0 * t0);
            let t0 = signed_drop_bit 16 (t0 * t0);
            pj \<leftarrow> perm_at (j AND 0xff);
            h \<leftarrow> perm_at ((i + uint8_to_int32 pj) AND 0xff);
            Some (signed_drop_bit 1 t0
                  * grad2 h (to_int32 (signed_drop_bit 17 x0)) (to_int32 (signed_drop_bit 17 y0)))
          } else Some 0);
        let t1 = to_int32 (signed_drop_bit 16 (push_bit 31 1
                   - signed_drop_bit 16 x1 * signed_drop_bit 16 x1
                   - signed_drop_bit 16 y1 * signed_drop_bit 16 y1));
        n1 \<leftarrow> (if 0 <s t1 then do {
            let t1 = signed_drop_bit 16 (t1 * t1);
            let t1 = signed_drop_bit 16 (t1 * t1);
            pj \<leftarrow> perm_at ((j + j1) AND 0xff);
            h \<leftarrow> perm_at ((i + i1 + uint8_to_int32 pj) AND 0xff);
            Some (signed_drop_bit 1 t1
                  * grad2 h (to_int32 (signed_drop_bit 17 x1)) (to_int32 (signed_drop_bit 17 y1)))
          } else Some 0);
        let t2 = to_int32 (signed_drop_bit 16 (push_bit 31 1
                   - signed_drop_bit 16 x2 * signed_drop_bit 16 x2
                   - signed_drop_bit 16 y2 * signed_drop_bit 16 y2));
        n2 \<leftarrow> (if 0 <s t2 then do {
            let t2 = signed_drop_bit 16 (t2 * t2);
            let t2 = signed_drop_bit 16 (t2 * t2);
            pj \<leftarrow> perm_at ((j + 1) AND 0xff);
            h \<leftarrow> perm_at ((i + 1 + uint8_to_int32 pj) AND 0xff);
            Some (signed_drop_bit 1 t2
                  * grad2 h (to_int32 (signed_drop_bit 17 x2)) (to_int32 (signed_drop_bit 17 y2)))
          } else Some 0);
        let n = n0 + n1 + n2;
        n \<leftarrow> div_int32 (push_bit 6 n) 46360;
        Some (to_int16 n)
      })"

subsection \<open>3D simplex noise\<close>

definition F3 :: int64 where
  "F3 = 1431655764"

definition G3 :: int64 where
  "G3 = 715827884"

definition fix0_6 :: int64 where
  "fix0_6 = 2576980378"

definition Noise3 :: "int32 \<Rightarrow> int32 \<Rightarrow> int32 \<Rightarrow> int16 option" where
  "Noise3 x y z =
     (let s = to_int32 (signed_drop_bit 32 ((to_int64 x + to_int64 y + to_int64 z) * F3));
          i = signed_drop_bit 11 (signed_drop_bit 1 x + signed_drop_bit 1 s);
          j = signed_drop_bit 11 (signed_drop_bit 1 y + signed_drop_bit 1 s);
          k = signed_drop_bit 11 (signed_drop_bit 1 z + signed_drop_bit 1 s);
          t = (to_int64 i + to_int64 j + to_int64 k) * G3;
          X0 = push_bit 32 (to_int64 i) - t;
          Y0 = push_bit 32 (to_int64 j) - t;
          Z0 = push_bit 32 (to_int64 k) - t;
          x0 = push_bit 20 (to_int64 x) - X0;
          y0 = push_bit 20 (to_int64 y) - Y0;
          z0 = push_bit 20 (to_int64 z) - Z0;
          ((i1, j1, k1), (i2, j2, k2)) =
            (if y0 \<le>s x0 then
               if z0 \<le>s y0 then ((1, 0, 0), (1, 1, 0))
               else if z0 \<le>s x0 then ((1, 0, 0), (1, 0, 1))
               else ((0, 0, 1), (1, 0, 1))
             else
               if y0 <s z0 then ((0, 0, 1), (0, 1, 1))
               else if x0 <s z0 then ((0, 1, 0), (0, 1, 1))
               else ((0, 1, 0), (1, 1, 0)));
          x1 = x0 - push_bit 32 (to_int64 i1) + G3;
          y1 = y0 - push_bit 32 (to_int64 j1) + G3;
          z1 = z0 - push_bit 32 (to_int64 k1) + G3;
          x2 = x0 - push_bit 32 (to_int64 i2) + 2 * G3;
          y2 = y0 - push_bit 32 (to_int64 j2) + 2 * G3;
          z2 = z0 - push_bit 32 (to_int64 k2) + 2 * G3;
          x3 = x0 - push_bit 32 1 + 3 * G3;
          y3 = y0 - push_bit 32 1 + 3 * G3;
          z3 = z0 - push_bit 32 1 + 3 * G3
      in do {
        let t0 = to_int32 (signed_drop_bit 16 (fix0_6
                   - signed_drop_bit 16 x0 * signed_drop_bit 16 x0
                   - signed_drop_bit 16 y0 * signed_drop_bit 16 y0
                   - signed_drop_bit 16 z0 * signed_drop_bit 16 z0));
        n0 \<leftarrow> (if 0 <s t0 then do {
            let t0 = signed_drop_bit 16 (t0 * t0);
            let t0 = signed_drop_bit 16 (t0 * t0);
            pk \<leftarrow> perm_at (k AND 0xff);
            pj \<leftarrow> perm_at ((j + uint8_to_int32 pk) AND 0xff);
            h \<leftarrow> perm_at ((i + uint8_to_int32 pj) AND 0xff);
            Some (signed_drop_bit 1 t0
                  * grad3 h (to_int32 (signed_drop_bit 17 x0)) (to_int32 (signed_drop_bit 17 y0))
                      (to_int32 (signed_drop_bit 17 z0)))
          } else Some 0);
        let t1 = to_int32 (signed_drop_bit 16 (fix0_6
                   - signed_drop_bit 16 x1 * signed_drop_bit 16 x1
                   - signed_drop_bit 16 y1 * signed_drop_bit 16 y1
                   - signed_drop_bit 16 z1 * signed_drop_bit 16 z1));
        n1 \<leftarrow> (if 0 <s t1 then do {
            let t1 = signed_drop_bit 16 (t1 * t1);
            let t1 = signed_drop_bit 16 (t1 * t1);
            pk \<leftarrow> perm_at ((k + k1) AND 0xff);
            pj \<leftarrow> perm_at ((j + j1 + uint8_to_int32 pk) AND 0xff);
            h \<leftarrow> perm_at ((i + i1 + uint8_to_int32 pj) AND 0xff);
            Some (signed_drop_bit 1 t1
                  * grad3 h (to_int32 (signed_drop_bit 17 x1)) (to_int32 (signed_drop_bit 17 y1))
                      (to_int32 (signed_drop_bit 17 z1)))
          } else Some 0);
        let t2 = to_int32 (signed_drop_bit 16 (fix0_6
                   - signed_drop_bit 16 x2 * signed_drop_bit 16 x2
                   - signed_drop_bit 16 y2 * signed_drop_bit 16 y2
                   - signed_drop_bit 16 z2 * signed_drop_bit 16 z2));
        n2 \<leftarrow> (if 0 <s t2 then do {
            let t2 = signed_drop_bit 16 (t2 * t2);
            let t2 = signed_drop_bit 16 (t2 * t2);
            pk \<leftarrow> perm_at ((k + k2) AND 0xff);
            pj \<leftarrow> perm_at ((j + j2 + uint8_to_int32 pk) AND 0xff);
            h \<leftarrow> perm_at ((i + i2 + uint8_to_int32 pj) AND 0xff);
            Some (signed_drop_bit 1 t2
                  * grad3 h (to_int32 (signed_drop_bit 17 x2)) (to_int32 (signed_drop_bit 17 y2))
                      (to_int32 (signed_drop_bit 17 z2)))
          } else Some 0);
        let t3 = to_int32 (signed_drop_bit 16 (fix0_6
                   - signed_drop_bit 16 x3 * signed_drop_bit 16 x3
                   - signed_drop_bit 16 y3 * signed_drop_bit 16 y3
                   - signed_drop_bit 16 z3 * signed_drop_bit 16 z3));
        n3 \<leftarrow> (if 0 <s t3 then do {
            let t3 = signed_drop_bit 16 (t3 * t3);
            let t3 = signed_drop_bit 16 (t3 * t3);
            pk \<leftarrow> perm_at ((k + 1) AND 0xff);
            pj \<leftarrow> perm_at ((j + 1 + uint8_to_int32 pk) AND 0xff);
            h \<leftarrow> perm_at ((i + 1 + uint8_to_int32 pj) AND 0xff);
            Some (signed_drop_bit 1 t3
                  * grad3 h (to_int32 (signed_drop_bit 17 x3)) (to_int32 (signed_drop_bit 17 y3))
                      (to_int32 (signed_drop_bit 17 z3)))
          } else Some 0);
        let n = n0 + n1 + n2 + n3;
        n \<leftarrow> div_int32 (push_bit 6 n) 64120;
        Some (to_int16 n)
      })"

section \<open>The evaluators, by lattice cell and corner\<close>

text \<open>
  The evaluators repeat one computation for each corner of the simplex. The functions of
  this section name the parts: the falloff value of a corner, its contribution, the
  lattice cell and the final rescaling. Each evaluator is shown below to be equal to the
  composition of its parts (\<open>Noise1_corners\<close>, \<open>Noise2_simplex\<close>, \<open>Noise3_simplex\<close>).
\<close>

subsection \<open>1D\<close>

text \<open>The base of the falloff weight of \<open>Noise1\<close>, before it is raised to the 4th power.\<close>

definition falloff1 :: "int32 \<Rightarrow> int32" where
  "falloff1 d = 0x8000 - signed_drop_bit 9 (d * d)"

definition corner1 :: "int32 \<Rightarrow> int32 \<Rightarrow> int32 option" where
  "corner1 i d =
     (let t = falloff1 d;
          t = signed_drop_bit 15 (t * t);
          t = signed_drop_bit 15 (t * t)
      in do {
        h \<leftarrow> perm_at (i AND 0xff);
        Some (signed_drop_bit 12 (t * grad1 h d))
      })"

subsection \<open>2D\<close>

text \<open>The lattice cell \<open>(i, j)\<close> of a point and the offsets \<open>(x0, y0)\<close> from its origin.\<close>

definition skew2 :: "int32 \<Rightarrow> int32 \<Rightarrow> int32 \<times> int32 \<times> int64 \<times> int64" where
  "skew2 x y =
     (let s = to_int32 (signed_drop_bit 32 ((to_int64 x + to_int64 y) * F2));
          i = signed_drop_bit 11 (signed_drop_bit 1 x + signed_drop_bit 1 s);
          j = signed_drop_bit 11 (signed_drop_bit 1 y + signed_drop_bit 1 s);
          t = (to_int64 i + to_int64 j) * G2;
          X0 = push_bit 32 (to_int64 i) - t;
          Y0 = push_bit 32 (to_int64 j) - t;
          x0 = push_bit 20 (to_int64 x) - X0;
          y0 = push_bit 20 (to_int64 y) - Y0
      in (i, j, x0, y0))"

text \<open>The offset \<open>(i1, j1)\<close> of the middle corner: which of the two triangles holds the point.\<close>

definition corner_order2 :: "int64 \<Rightarrow> int64 \<Rightarrow> int32 \<times> int32" where
  "corner_order2 x0 y0 = (if y0 <s x0 then (1, 0) else (0, 1))"

definition falloff2 :: "int64 \<Rightarrow> int64 \<Rightarrow> int32" where
  "falloff2 x y =
     to_int32 (signed_drop_bit 16 (push_bit 31 1
       - signed_drop_bit 16 x * signed_drop_bit 16 x
       - signed_drop_bit 16 y * signed_drop_bit 16 y))"

definition corner2 :: "int32 \<Rightarrow> int32 \<Rightarrow> int64 \<Rightarrow> int64 \<Rightarrow> int32 option" where
  "corner2 i j x y =
     (let t = falloff2 x y
      in if 0 <s t then do {
           let t = signed_drop_bit 16 (t * t);
           let t = signed_drop_bit 16 (t * t);
           pj \<leftarrow> perm_at (j AND 0xff);
           h \<leftarrow> perm_at ((i + uint8_to_int32 pj) AND 0xff);
           Some (signed_drop_bit 1 t
                 * grad2 h (to_int32 (signed_drop_bit 17 x)) (to_int32 (signed_drop_bit 17 y)))
         } else Some 0)"

definition scale2 :: "int32 \<Rightarrow> int16 option" where
  "scale2 n = do { n \<leftarrow> div_int32 (push_bit 6 n) 46360; Some (to_int16 n) }"

text \<open>
  The sum of the three corners of the triangle whose middle corner is at the offset
  \<open>(i1, j1)\<close> from the cell, rescaled.
\<close>

definition simplex2 ::
  "int32 \<Rightarrow> int32 \<Rightarrow> int64 \<Rightarrow> int64 \<Rightarrow> int32 \<times> int32 \<Rightarrow> int16 option" where
  "simplex2 i j x0 y0 o1 =
     (case o1 of (i1, j1) \<Rightarrow> do {
        n0 \<leftarrow> corner2 i j x0 y0;
        n1 \<leftarrow> corner2 (i + i1) (j + j1)
               (x0 - push_bit 32 (to_int64 i1) + G2) (y0 - push_bit 32 (to_int64 j1) + G2);
        n2 \<leftarrow> corner2 (i + 1) (j + 1)
               (x0 - push_bit 32 1 + 2 * G2) (y0 - push_bit 32 1 + 2 * G2);
        scale2 (n0 + n1 + n2)
      })"

subsection \<open>3D\<close>

definition skew3 ::
  "int32 \<Rightarrow> int32 \<Rightarrow> int32 \<Rightarrow> int32 \<times> int32 \<times> int32 \<times> int64 \<times> int64 \<times> int64" where
  "skew3 x y z =
     (let s = to_int32 (signed_drop_bit 32 ((to_int64 x + to_int64 y + to_int64 z) * F3));
          i = signed_drop_bit 11 (signed_drop_bit 1 x + signed_drop_bit 1 s);
          j = signed_drop_bit 11 (signed_drop_bit 1 y + signed_drop_bit 1 s);
          k = signed_drop_bit 11 (signed_drop_bit 1 z + signed_drop_bit 1 s);
          t = (to_int64 i + to_int64 j + to_int64 k) * G3;
          X0 = push_bit 32 (to_int64 i) - t;
          Y0 = push_bit 32 (to_int64 j) - t;
          Z0 = push_bit 32 (to_int64 k) - t;
          x0 = push_bit 20 (to_int64 x) - X0;
          y0 = push_bit 20 (to_int64 y) - Y0;
          z0 = push_bit 20 (to_int64 z) - Z0
      in (i, j, k, x0, y0, z0))"

text \<open>
  The offsets \<open>(i1, j1, k1)\<close> and \<open>(i2, j2, k2)\<close> of the second and third corners: the
  comparison cascade of \<open>Noise3\<close>, branch by branch.
\<close>

definition corner_order3 ::
  "int64 \<Rightarrow> int64 \<Rightarrow> int64 \<Rightarrow> (int32 \<times> int32 \<times> int32) \<times> (int32 \<times> int32 \<times> int32)" where
  "corner_order3 x0 y0 z0 =
     (if y0 \<le>s x0 then
        if z0 \<le>s y0 then ((1, 0, 0), (1, 1, 0))
        else if z0 \<le>s x0 then ((1, 0, 0), (1, 0, 1))
        else ((0, 0, 1), (1, 0, 1))
      else
        if y0 <s z0 then ((0, 0, 1), (0, 1, 1))
        else if x0 <s z0 then ((0, 1, 0), (0, 1, 1))
        else ((0, 1, 0), (1, 1, 0)))"

definition falloff3 :: "int64 \<Rightarrow> int64 \<Rightarrow> int64 \<Rightarrow> int32" where
  "falloff3 x y z =
     to_int32 (signed_drop_bit 16 (fix0_6
       - signed_drop_bit 16 x * signed_drop_bit 16 x
       - signed_drop_bit 16 y * signed_drop_bit 16 y
       - signed_drop_bit 16 z * signed_drop_bit 16 z))"

definition corner3 ::
  "int32 \<Rightarrow> int32 \<Rightarrow> int32 \<Rightarrow> int64 \<Rightarrow> int64 \<Rightarrow> int64 \<Rightarrow> int32 option" where
  "corner3 i j k x y z =
     (let t = falloff3 x y z
      in if 0 <s t then do {
           let t = signed_drop_bit 16 (t * t);
           let t = signed_drop_bit 16 (t * t);
           pk \<leftarrow> perm_at (k AND 0xff);
           pj \<leftarrow> perm_at ((j + uint8_to_int32 pk) AND 0xff);
           h \<leftarrow> perm_at ((i + uint8_to_int32 pj) AND 0xff);
           Some (signed_drop_bit 1 t
                 * grad3 h (to_int32 (signed_drop_bit 17 x)) (to_int32 (signed_drop_bit 17 y))
                     (to_int32 (signed_drop_bit 17 z)))
         } else Some 0)"

definition scale3 :: "int32 \<Rightarrow> int16 option" where
  "scale3 n = do { n \<leftarrow> div_int32 (push_bit 6 n) 64120; Some (to_int16 n) }"

text \<open>
  The sum of the four corners of the tetrahedron whose second and third corners are at
  the offsets \<open>(i1, j1, k1)\<close> and \<open>(i2, j2, k2)\<close> from the cell, rescaled.
\<close>

definition simplex3 ::
  "int32 \<Rightarrow> int32 \<Rightarrow> int32 \<Rightarrow> int64 \<Rightarrow> int64 \<Rightarrow> int64
     \<Rightarrow> (int32 \<times> int32 \<times> int32) \<times> (int32 \<times> int32 \<times> int32) \<Rightarrow> int16 option" where
  "simplex3 i j k x0 y0 z0 os =
     (case os of ((i1, j1, k1), (i2, j2, k2)) \<Rightarrow> do {
        n0 \<leftarrow> corner3 i j k x0 y0 z0;
        n1 \<leftarrow> corner3 (i + i1) (j + j1) (k + k1)
               (x0 - push_bit 32 (to_int64 i1) + G3)
               (y0 - push_bit 32 (to_int64 j1) + G3)
               (z0 - push_bit 32 (to_int64 k1) + G3);
        n2 \<leftarrow> corner3 (i + i2) (j + j2) (k + k2)
               (x0 - push_bit 32 (to_int64 i2) + 2 * G3)
               (y0 - push_bit 32 (to_int64 j2) + 2 * G3)
               (z0 - push_bit 32 (to_int64 k2) + 2 * G3);
        n3 \<leftarrow> corner3 (i + 1) (j + 1) (k + 1)
               (x0 - push_bit 32 1 + 3 * G3)
               (y0 - push_bit 32 1 + 3 * G3)
               (z0 - push_bit 32 1 + 3 * G3);
        scale3 (n0 + n1 + n2 + n3)
      })"

section \<open>Properties\<close>

subsection \<open>The permutation table\<close>

lemma length_perm: "length perm = 256"
  by (simp add: perm_def)

lemma perm_documented: "map unat perm = documented_sequence"
  by (simp add: perm_def documented_sequence_def)

lemma distinct_documented: "distinct documented_sequence"
  by (simp add: documented_sequence_def)

lemma distinct_perm: "distinct perm"
proof -
  have "distinct (map unat perm)"
    by (simp only: perm_documented distinct_documented)
  then show ?thesis
    by (simp add: distinct_map)
qed

lemma count_list_distinct:
  "distinct xs \<Longrightarrow> x \<in> set xs \<Longrightarrow> count_list xs x = 1"
  by (induction xs) auto

lemma set_perm: "set perm = UNIV"
proof (rule card_eq_UNIV_imp_eq_UNIV)
  show "finite (UNIV :: uint8 set)" by simp
  have "card (set perm) = length perm"
    using distinct_perm by (rule distinct_card)
  then show "card (set perm) = CARD(uint8)"
    by (simp add: length_perm card_word)
qed

text \<open>
  C1. The table of the source is the 256-entry sequence of the specification, entry by
  entry (it starts 151, 160, 137, 91 and ends 156, 180), and it is a permutation of the
  byte values: no value is repeated, every value occurs, so each occurs exactly once.
\<close>

theorem perm_is_documented_permutation:
  "map unat perm = documented_sequence
   \<and> length perm = 256
   \<and> take 4 (map unat perm) = [151, 160, 137, 91]
   \<and> drop 254 (map unat perm) = [156, 180]
   \<and> distinct perm
   \<and> set perm = UNIV
   \<and> (\<forall>v. count_list perm v = 1)"
proof -
  have b: "take 4 (map unat perm) = [151, 160, 137, 91]"
    by (simp add: perm_def)
  have c: "drop 254 (map unat perm) = [156, 180]"
    by (simp add: perm_def)
  have d: "\<forall>v. count_list perm v = 1"
    using distinct_perm set_perm by (simp add: count_list_distinct)
  from perm_documented b c d distinct_perm set_perm length_perm show ?thesis
    by blast
qed

subsection \<open>Masked lookups\<close>

lemma sint_eq_uint_small:
  fixes w :: int32
  assumes "uint w < 2147483648"
  shows "sint w = uint w"
proof -
  have ge: "- 2147483648 \<le> uint w"
    using uint_ge_0 [of w] by linarith
  have "signed_take_bit 31 (uint w) = uint w"
    using ge assms by (intro signed_take_bit_int_eq_self) simp_all
  then show ?thesis
    by (simp add: sint_uint)
qed

lemma uint_mask_byte: "uint ((w :: int32) AND 0xff) \<le> 255"
proof -
  have "w AND 0xff \<le> 0xff" by (rule word_and_le1)
  then show ?thesis by (simp add: word_le_def)
qed

lemma sint_mask_byte: "sint ((w :: int32) AND 0xff) = uint (w AND 0xff)"
  using uint_mask_byte [of w] by (intro sint_eq_uint_small) linarith

lemma perm_at_mask: "perm_at (w AND 0xff) = Some (perm ! unat (w AND 0xff))"
  using uint_mask_byte [of w] by (simp add: perm_at_def sint_mask_byte length_perm)

subsection \<open>The 1D gradient\<close>

lemma grad1_magnitude:
  "1 \<le> unat (1 + (hash AND 7 :: uint8)) \<and> unat (1 + (hash AND 7)) \<le> 8"
proof -
  have "hash AND 7 \<le> 7" by (rule word_and_le1)
  then have le: "unat (hash AND 7) \<le> 7" by (simp add: word_le_nat_alt)
  then have "unat (1 + (hash AND 7)) = 1 + unat (hash AND 7)"
    by (simp add: unat_word_ariths)
  with le show ?thesis by simp
qed

text \<open>
  C7. \<open>grad1 hash x\<close> is \<open>s * m * x\<close> in wrapping \<open>int32\<close> arithmetic: the magnitude
  \<open>m = 1 + (hash & 7)\<close> is between 1 and 8, and the sign \<open>s\<close> is \<open>-1\<close> when bit 3 of the
  hash is set and \<open>+1\<close> otherwise. The function multiplies only; it has no division.
\<close>

theorem grad1_sign_magnitude:
  "grad1 hash x = (if bit hash 3 then - 1 else 1) * uint8_to_int32 (1 + (hash AND 7)) * x
   \<and> 1 \<le> unat (1 + (hash AND 7)) \<and> unat (1 + (hash AND 7)) \<le> 8"
proof -
  have a: "(hash AND 15) AND 7 = hash AND 7"
    by (simp add: and.assoc)
  have "(hash AND 15) AND 8 = hash AND 2 ^ 3"
    by (simp add: and.assoc)
  then have b: "((hash AND 15) AND 8 \<noteq> 0) = bit hash 3"
    by (simp only: and_exp_eq_0_iff_not_bit) simp
  have "grad1 hash x = (if bit hash 3 then - 1 else 1) * uint8_to_int32 (1 + (hash AND 7)) * x"
    by (simp add: grad1_def Let_def a b)
  with grad1_magnitude [of hash] show ?thesis
    by simp
qed

text \<open>
  C8. \<open>grad1\<close> is odd in its coordinate: \<open>grad1(hash, x) = -grad1(hash, -x)\<close>, with the
  negations and the product wrapping in \<open>int32\<close>.
\<close>

theorem grad1_odd: "grad1 hash x = - grad1 hash (- x)"
  by (simp add: grad1_def Let_def)

subsection \<open>The evaluators at the origin\<close>

lemma Noise1_origin: "Noise1 0 = Some 1019"
  by (simp add: Noise1_def perm_at_def perm_def div_int32_def grad1_def Let_def)

lemma Noise2_origin: "Noise2 0 0 = Some 0"
  by (simp add: Noise2_def perm_at_def perm_def div_int32_def grad2_def Let_def F2_def
      G2_def q_def word_sless_alt)

lemma Noise3_origin: "Noise3 0 0 0 = Some 0"
  by (simp add: Noise3_def perm_at_def perm_def div_int32_def grad3_def Let_def F3_def
      G3_def q_def fix0_6_def word_sless_alt)

text \<open>
  C9. At the origin the three evaluators return 1019, 0 and 0: each is within 2048
  (1/16 of full scale) of the Q0.15 representation of 0.
\<close>

theorem origin_near_zero:
  "(\<exists>r. Noise1 0 = Some r \<and> r = 1019 \<and> \<bar>sint r\<bar> \<le> 2048)
   \<and> (\<exists>r. Noise2 0 0 = Some r \<and> r = 0 \<and> \<bar>sint r\<bar> \<le> 2048)
   \<and> (\<exists>r. Noise3 0 0 0 = Some r \<and> r = 0 \<and> \<bar>sint r\<bar> \<le> 2048)"
  by (simp add: Noise1_origin Noise2_origin Noise3_origin)

subsection \<open>The evaluators are the compositions of their parts\<close>

lemma Noise1_corners:
  "Noise1 x = do {
     n0 \<leftarrow> corner1 (signed_drop_bit 12 x) (x AND 0xfff);
     n1 \<leftarrow> corner1 (signed_drop_bit 12 x + 1) ((x AND 0xfff) - 0x1000);
     n \<leftarrow> div_int32 (push_bit 14 (n0 + n1 + 2503)) 40225;
     Some (to_int16 n)
   }"
  unfolding Noise1_def corner1_def falloff1_def Let_def
  by simp

lemma Noise2_simplex:
  "Noise2 x y = (case skew2 x y of (i, j, x0, y0) \<Rightarrow>
     simplex2 i j x0 y0 (corner_order2 x0 y0))"
  unfolding Noise2_def skew2_def simplex2_def corner_order2_def corner2_def falloff2_def scale2_def
    Let_def split_def fst_conv snd_conv
  by (rule refl)

lemma Noise3_simplex:
  "Noise3 x y z = (case skew3 x y z of (i, j, k, x0, y0, z0) \<Rightarrow>
     simplex3 i j k x0 y0 z0 (corner_order3 x0 y0 z0))"
  unfolding Noise3_def skew3_def simplex3_def corner_order3_def corner3_def falloff3_def scale3_def
    Let_def split_def fst_conv snd_conv
  by (rule refl)

subsection \<open>No panic\<close>

lemma corner1_total: "\<exists>n. corner1 i d = Some n"
  by (simp add: corner1_def Let_def perm_at_mask)

lemma corner2_total: "\<exists>n. corner2 i j x y = Some n"
  by (simp add: corner2_def Let_def perm_at_mask)

lemma corner3_total: "\<exists>n. corner3 i j k x y z = Some n"
  by (simp add: corner3_def Let_def perm_at_mask)

lemma scale2_total: "\<exists>r. scale2 n = Some r"
  by (simp add: scale2_def div_int32_def)

lemma scale3_total: "\<exists>r. scale3 n = Some r"
  by (simp add: scale3_def div_int32_def)

lemma bind_total:
  assumes "\<exists>a. m = Some a" and "\<And>a. \<exists>b. f a = Some b"
  shows "\<exists>b. Option.bind m f = Some b"
  using assms by auto

lemma simplex2_total: "\<exists>r. simplex2 i j x0 y0 o1 = Some r"
  unfolding simplex2_def split_def
  by (intro bind_total corner2_total scale2_total)

lemma simplex3_total: "\<exists>r. simplex3 i j k x0 y0 z0 os = Some r"
  unfolding simplex3_def split_def
  by (intro bind_total corner3_total scale3_total)

lemma scale1_total: "\<exists>r. div_int32 (push_bit 14 n) 40225 \<bind> (\<lambda>n. Some (to_int16 n)) = Some r"
  by (simp add: div_int32_def)

lemma Noise1_total: "\<exists>r. Noise1 x = Some r"
  unfolding Noise1_corners
  by (intro bind_total corner1_total scale1_total)

lemma Noise2_total: "\<exists>r. Noise2 x y = Some r"
  unfolding Noise2_simplex split_def
  by (rule simplex2_total)

lemma Noise3_total: "\<exists>r. Noise3 x y z = Some r"
  unfolding Noise3_simplex split_def
  by (rule simplex3_total)

text \<open>
  C4. On every \<open>int32\<close> input the three evaluators return a value: no lookup in the
  table is out of bounds, since an index masked with \<open>0xff\<close> is between 0 and 255 also
  when the unmasked index is negative, and the three divisors are nonzero constants.
\<close>

theorem evaluators_total:
  "(\<exists>r. Noise1 x = Some r)
   \<and> (\<exists>r. Noise2 x y = Some r)
   \<and> (\<exists>r. Noise3 x y z = Some r)
   \<and> 0 \<le> sint (w AND 0xff) \<and> sint (w AND 0xff) < 256
   \<and> (\<exists>h. perm_at (w AND 0xff) = Some h)
   \<and> (\<exists>d. div_int32 n 40225 = Some d)
   \<and> (\<exists>d. div_int32 n 46360 = Some d)
   \<and> (\<exists>d. div_int32 n 64120 = Some d)"
proof -
  have "0 \<le> sint (w AND 0xff) \<and> sint (w AND 0xff) < 256"
    using uint_mask_byte [of w] by (simp add: sint_mask_byte)
  moreover have "\<exists>h. perm_at (w AND 0xff) = Some h"
    by (simp add: perm_at_mask)
  moreover have "(\<exists>d. div_int32 n 40225 = Some d) \<and> (\<exists>d. div_int32 n 46360 = Some d)
      \<and> (\<exists>d. div_int32 n 64120 = Some d)"
    by (simp add: div_int32_def)
  ultimately show ?thesis
    using Noise1_total [of x] Noise2_total [of x y] Noise3_total [of x y z] by blast
qed

subsection \<open>The falloff of the 1D evaluator\<close>

lemma uint_mask12: "uint ((x :: int32) AND 0xfff) \<le> 4095"
proof -
  have "x AND 0xfff \<le> 0xfff" by (rule word_and_le1)
  then show ?thesis by (simp add: word_le_def)
qed

lemma sint_mask12: "sint ((x :: int32) AND 0xfff) = uint (x AND 0xfff)"
  using uint_mask12 [of x] by (intro sint_eq_uint_small) linarith

lemma sint_mask12_range:
  "0 \<le> sint ((x :: int32) AND 0xfff)" "sint ((x :: int32) AND 0xfff) \<le> 4095"
  using uint_mask12 [of x] uint_ge_0 [of "x AND 0xfff"] by (simp_all only: sint_mask12)

lemma signed_take_bit_31_self:
  fixes k :: int
  assumes "- 2147483648 \<le> k" and "k < 2147483648"
  shows "signed_take_bit 31 k = k"
  using assms by (intro signed_take_bit_int_eq_self) simp_all

lemma square_le_4096:
  fixes a :: int
  assumes "- 4096 \<le> a" and "a \<le> 4096"
  shows "0 \<le> a * a" and "a * a \<le> 16777216"
proof -
  show "0 \<le> a * a" by simp
  have "\<bar>a\<bar> * \<bar>a\<bar> \<le> 4096 * 4096"
    using assms by (intro mult_mono) simp_all
  then show "a * a \<le> 16777216" by simp
qed

lemma sint_falloff1:
  fixes d :: int32
  assumes "- 4096 \<le> sint d" and "sint d \<le> 4096"
  shows "sint (falloff1 d) = 32768 - (sint d * sint d) div 512"
    and "0 \<le> sint (falloff1 d)"
proof -
  note sq = square_le_4096 [OF assms]
  have "signed_take_bit 31 (sint d * sint d) = sint d * sint d"
    by (rule signed_take_bit_31_self) (use sq in linarith)+
  then have m: "sint (d * d) = sint d * sint d"
    by (simp add: sint_word_mult)
  have s: "sint (signed_drop_bit 9 (d * d)) = (sint d * sint d) div 512"
    by (simp add: sint_signed_drop_bit_eq m drop_bit_eq_div)
  have lo: "0 \<le> (sint d * sint d) div 512"
    using sq(1) by (simp add: pos_imp_zdiv_nonneg_iff)
  have hi: "(sint d * sint d) div 512 \<le> 32768"
    using sq(2) by linarith
  have "signed_take_bit 31 (32768 - (sint d * sint d) div 512) = 32768 - (sint d * sint d) div 512"
    by (rule signed_take_bit_31_self) (use lo hi in linarith)+
  then show e: "sint (falloff1 d) = 32768 - (sint d * sint d) div 512"
    by (simp add: falloff1_def sint_word_diff s)
  show "0 \<le> sint (falloff1 d)"
    using hi by (simp add: e)
qed

lemma sint_mask12_minus:
  "sint (((x :: int32) AND 0xfff) - 0x1000) = sint (x AND 0xfff) - 4096"
proof -
  have "signed_take_bit 31 (sint (x AND 0xfff) - 4096) = sint (x AND 0xfff) - 4096"
    by (rule signed_take_bit_31_self) (use sint_mask12_range [of x] in linarith)+
  then show ?thesis
    by (simp add: sint_word_diff)
qed

text \<open>
  C6. In \<open>Noise1\<close> the two falloff bases are non-negative for every \<open>int32\<close> input,
  so no clamping branch is needed: with \<open>x0 = x & 0xfff\<close> and \<open>x1 = x0 - 0x1000\<close>, the
  values \<open>0x8000 - (x0*x0)>>9\<close> and \<open>0x8000 - (x1*x1)>>9\<close> are computed without wrap-around
  (they equal the same expressions over the integers) and are at least 0.
\<close>

theorem falloff1_nonneg:
  "0 \<le>s falloff1 (x AND 0xfff)
   \<and> 0 \<le>s falloff1 ((x AND 0xfff) - 0x1000)
   \<and> sint (falloff1 (x AND 0xfff)) = 0x8000 - (sint (x AND 0xfff))\<^sup>2 div 2 ^ 9
   \<and> sint (falloff1 ((x AND 0xfff) - 0x1000))
       = 0x8000 - (sint (x AND 0xfff) - 0x1000)\<^sup>2 div 2 ^ 9"
proof -
  have r0: "- 4096 \<le> sint (x AND 0xfff)" "sint (x AND 0xfff) \<le> 4096"
    using sint_mask12_range [of x] by linarith+
  have r1: "- 4096 \<le> sint ((x AND 0xfff) - 0x1000)" "sint ((x AND 0xfff) - 0x1000) \<le> 4096"
    using sint_mask12_range [of x] unfolding sint_mask12_minus by linarith+
  show ?thesis
    using sint_falloff1 [OF r0] sint_falloff1 [OF r1]
    by (simp add: word_sle_eq power2_eq_square sint_mask12_minus)
qed

subsection \<open>The period of the 1D evaluator\<close>

lemma word_take_bit_add:
  "take_bit n (a + b :: 'a::len word) = take_bit n (take_bit n a + take_bit n b)"
  by transfer (simp add: take_bit_add)

lemma mask_byte_take_bit: "(w :: int32) AND 0xff = take_bit 8 w"
  by (simp add: take_bit_eq_mask mask_eq_exp_minus_1)

lemma mask12_take_bit: "(w :: int32) AND 0xfff = take_bit 12 w"
  by (simp add: take_bit_eq_mask mask_eq_exp_minus_1)

lemma take_bit_add_period:
  fixes x :: int32
  assumes "n \<le> 20"
  shows "take_bit n (x + 0x100000) = take_bit n x"
proof -
  have "(0x100000 :: int32) = push_bit 20 1" by simp
  then have z: "take_bit n (0x100000 :: int32) = 0"
    using assms by (simp only: take_bit_push_bit) simp
  have "take_bit n (x + 0x100000) = take_bit n (take_bit n x + take_bit n (0x100000 :: int32))"
    by (rule word_take_bit_add)
  then show ?thesis by (simp add: z)
qed

lemma take_bit_lattice:
  fixes x :: int32
  shows "take_bit 8 (signed_drop_bit 12 x) = drop_bit 12 (take_bit 20 x)"
  by (rule bit_word_eqI) (auto simp add: bit_simps)

lemma lattice_period:
  "signed_drop_bit 12 (x + 0x100000) AND 0xff = signed_drop_bit 12 (x :: int32) AND 0xff"
  by (simp only: mask_byte_take_bit take_bit_lattice take_bit_add_period)

lemma lattice_succ_period:
  "(signed_drop_bit 12 (x + 0x100000) + 1) AND 0xff = (signed_drop_bit 12 (x :: int32) + 1) AND 0xff"
proof -
  have "take_bit 8 (signed_drop_bit 12 (x + 0x100000) + 1)
      = take_bit 8 (take_bit 8 (signed_drop_bit 12 (x + 0x100000)) + take_bit 8 1)"
    by (rule word_take_bit_add)
  also have "\<dots> = take_bit 8 (take_bit 8 (signed_drop_bit 12 x) + take_bit 8 1)"
    by (simp only: take_bit_lattice take_bit_add_period)
  also have "\<dots> = take_bit 8 (signed_drop_bit 12 x + 1)"
    by (rule word_take_bit_add [symmetric])
  finally show ?thesis
    by (simp only: mask_byte_take_bit)
qed

lemma offset_period: "(x + 0x100000) AND 0xfff = (x :: int32) AND 0xfff"
  by (simp only: mask12_take_bit take_bit_add_period)

lemma corner1_index_cong:
  "i AND 0xff = i' AND 0xff \<Longrightarrow> corner1 i d = corner1 i' d"
  by (simp add: corner1_def)

text \<open>
  C10. \<open>Noise1\<close> has period \<open>1 << 20\<close> (256 lattice units) in its input, also where the
  addition wraps around in \<open>int32\<close>: the lattice indices are used only masked with
  \<open>0xff\<close>, and the fractional offset \<open>x & 0xfff\<close> does not change.
\<close>

theorem Noise1_periodic: "Noise1 (x + 1048576) = Noise1 x"
proof -
  have a: "corner1 (signed_drop_bit 12 (x + 0x100000)) d = corner1 (signed_drop_bit 12 x) d" for d
    by (rule corner1_index_cong) (rule lattice_period)
  have b: "corner1 (signed_drop_bit 12 (x + 0x100000) + 1) d = corner1 (signed_drop_bit 12 x + 1) d" for d
    by (rule corner1_index_cong) (rule lattice_succ_period)
  show ?thesis
    by (simp only: Noise1_corners [of "x + 1048576"] Noise1_corners [of x] a b offset_period)
qed

subsection \<open>The bias and the rescaling of the 1D evaluator\<close>

lemma sint_scaled:
  "sint (push_bit 14 (n0 + n1 + 2503 :: int32)) = signed_take_bit 31 ((sint n0 + sint n1 + 2503) * 16384)"
proof -
  have "push_bit 14 (n0 + n1 + 2503 :: int32) = word_of_int ((sint n0 + sint n1 + 2503) * 16384)"
    by (simp add: push_bit_eq_mult)
  then show ?thesis
    by (simp only: sint_sbintrunc') simp
qed

lemma sint_to_int16:
  "sint (to_int16 (word_of_int d)) = signed_take_bit 15 d"
proof -
  have "to_int16 (word_of_int d) = (word_of_int d :: int16)"
    by (rule ucast_down_wi) (simp add: is_down)
  then show ?thesis
    by (simp only: sint_sbintrunc') simp
qed

lemma div_int32_40225:
  "div_int32 a 40225 = Some (word_of_int (sgn (sint a) * (\<bar>sint a\<bar> div 40225)))"
  by (simp add: div_int32_def signed_divide_int_def)

text \<open>
  C5. The result of \<open>Noise1\<close> is obtained from the sum of the two corner contributions
  \<open>n0 + n1\<close> by adding 2503, multiplying by 16384 (the left shift by 14, in \<open>int32\<close>),
  dividing by 40225 with the quotient truncated towards zero, and truncating the quotient
  to \<open>int16\<close>. Nothing else is added or scaled.
\<close>

theorem Noise1_bias_and_scale:
  "\<exists>n0 n1 r.
     corner1 (signed_drop_bit 12 x) (x AND 0xfff) = Some n0
   \<and> corner1 (signed_drop_bit 12 x + 1) ((x AND 0xfff) - 0x1000) = Some n1
   \<and> Noise1 x = Some r
   \<and> (let v = signed_take_bit 31 ((sint n0 + sint n1 + 2503) * 16384);
           d = sgn v * (\<bar>v\<bar> div 40225)
       in r = to_int16 (word_of_int d) \<and> sint r = signed_take_bit 15 d)"
proof -
  obtain n0 where n0: "corner1 (signed_drop_bit 12 x) (x AND 0xfff) = Some n0"
    using corner1_total by blast
  obtain n1 where n1: "corner1 (signed_drop_bit 12 x + 1) ((x AND 0xfff) - 0x1000) = Some n1"
    using corner1_total by blast
  define v where "v = signed_take_bit 31 ((sint n0 + sint n1 + 2503) * 16384)"
  define d where "d = sgn v * (\<bar>v\<bar> div 40225)"
  have "Noise1 x = div_int32 (push_bit 14 (n0 + n1 + 2503)) 40225 \<bind> (\<lambda>n. Some (to_int16 n))"
    by (simp only: Noise1_corners n0 n1 Option.bind.simps)
  also have "\<dots> = Some (to_int16 (word_of_int d))"
    by (simp only: div_int32_40225 sint_scaled Option.bind.simps v_def d_def)
  finally have r: "Noise1 x = Some (to_int16 (word_of_int d))" .
  have s: "sint (to_int16 (word_of_int d)) = signed_take_bit 15 d"
    by (rule sint_to_int16)
  show ?thesis
    using n0 n1 r s unfolding Let_def v_def d_def by blast
qed

subsection \<open>Corner order and corner gating\<close>

text \<open>
  C2. In \<open>Noise3\<close> the offsets \<open>(i1, j1, k1)\<close> and \<open>(i2, j2, k2)\<close> of the second and third
  corners are chosen by a six-way cascade of signed comparisons of \<open>x0\<close>, \<open>y0\<close>, \<open>z0\<close>,
  ties included:
  \<^item> \<open>x0 \<ge> y0\<close>, \<open>y0 \<ge> z0\<close>: X Y Z order, \<open>(1,0,0)\<close> and \<open>(1,1,0)\<close>;
  \<^item> \<open>x0 \<ge> y0\<close>, \<open>y0 < z0\<close>, \<open>x0 \<ge> z0\<close>: X Z Y order, \<open>(1,0,0)\<close> and \<open>(1,0,1)\<close>;
  \<^item> \<open>x0 \<ge> y0\<close>, \<open>y0 < z0\<close>, \<open>x0 < z0\<close>: Z X Y order, \<open>(0,0,1)\<close> and \<open>(1,0,1)\<close>;
  \<^item> \<open>x0 < y0\<close>, \<open>y0 < z0\<close>: Z Y X order, \<open>(0,0,1)\<close> and \<open>(0,1,1)\<close>;
  \<^item> \<open>x0 < y0\<close>, \<open>y0 \<ge> z0\<close>, \<open>x0 < z0\<close>: Y Z X order, \<open>(0,1,0)\<close> and \<open>(0,1,1)\<close>;
  \<^item> \<open>x0 < y0\<close>, \<open>y0 \<ge> z0\<close>, \<open>x0 \<ge> z0\<close>: Y X Z order, \<open>(0,1,0)\<close> and \<open>(1,1,0)\<close>.

  The first conjunct says that \<open>Noise3\<close> sums the corners at the offsets of the cascade.
\<close>

theorem Noise3_corner_order:
  "Noise3 x y z = (case skew3 x y z of (i, j, k, x0, y0, z0) \<Rightarrow>
       simplex3 i j k x0 y0 z0 (corner_order3 x0 y0 z0))
   \<and> (sint x0 \<ge> sint y0 \<and> sint y0 \<ge> sint z0
        \<longrightarrow> corner_order3 x0 y0 z0 = ((1, 0, 0), (1, 1, 0)))
   \<and> (sint x0 \<ge> sint y0 \<and> sint y0 < sint z0 \<and> sint x0 \<ge> sint z0
        \<longrightarrow> corner_order3 x0 y0 z0 = ((1, 0, 0), (1, 0, 1)))
   \<and> (sint x0 \<ge> sint y0 \<and> sint y0 < sint z0 \<and> sint x0 < sint z0
        \<longrightarrow> corner_order3 x0 y0 z0 = ((0, 0, 1), (1, 0, 1)))
   \<and> (sint x0 < sint y0 \<and> sint y0 < sint z0
        \<longrightarrow> corner_order3 x0 y0 z0 = ((0, 0, 1), (0, 1, 1)))
   \<and> (sint x0 < sint y0 \<and> sint y0 \<ge> sint z0 \<and> sint x0 < sint z0
        \<longrightarrow> corner_order3 x0 y0 z0 = ((0, 1, 0), (0, 1, 1)))
   \<and> (sint x0 < sint y0 \<and> sint y0 \<ge> sint z0 \<and> sint x0 \<ge> sint z0
        \<longrightarrow> corner_order3 x0 y0 z0 = ((0, 1, 0), (1, 1, 0)))"
proof -
  have "corner_order3 x0 y0 z0 =
     (if sint x0 \<ge> sint y0 then
        if sint y0 \<ge> sint z0 then ((1, 0, 0), (1, 1, 0))
        else if sint x0 \<ge> sint z0 then ((1, 0, 0), (1, 0, 1))
        else ((0, 0, 1), (1, 0, 1))
      else
        if sint y0 < sint z0 then ((0, 0, 1), (0, 1, 1))
        else if sint x0 < sint z0 then ((0, 1, 0), (0, 1, 1))
        else ((0, 1, 0), (1, 1, 0)))"
    by (simp only: corner_order3_def word_sle_eq word_sless_alt)
  then show ?thesis
    using Noise3_simplex [of x y z] by simp
qed

text \<open>
  One input of \<open>Noise3\<close> for each of the six orders, with its cell and offsets.
\<close>

theorem Noise3_corner_order_witness:
  "skew3 2000 1000 3000 = (0, 0, 1, 2812979884, 1764403884, - 433411412)
   \<and> sint (1764403884 :: int64) \<le> sint (2812979884 :: int64)
   \<and> sint (- 433411412 :: int64) \<le> sint (1764403884 :: int64)
   \<and> corner_order3 2812979884 1764403884 (- 433411412) = ((1, 0, 0), (1, 1, 0))
   \<and> Noise3 2000 1000 3000 =
       simplex3 0 0 1 2812979884 1764403884 (- 433411412) ((1, 0, 0), (1, 1, 0))
   \<and> skew3 2000 3000 1000 = (0, 1, 0, 2812979884, - 433411412, 1764403884)
   \<and> sint (- 433411412 :: int64) \<le> sint (2812979884 :: int64)
   \<and> sint (- 433411412 :: int64) < sint (1764403884 :: int64)
   \<and> sint (1764403884 :: int64) \<le> sint (2812979884 :: int64)
   \<and> corner_order3 2812979884 (- 433411412) 1764403884 = ((1, 0, 0), (1, 0, 1))
   \<and> Noise3 2000 3000 1000 =
       simplex3 0 1 0 2812979884 (- 433411412) 1764403884 ((1, 0, 0), (1, 0, 1))
   \<and> skew3 1000 3000 2000 = (0, 1, 0, 1764403884, - 433411412, 2812979884)
   \<and> sint (- 433411412 :: int64) \<le> sint (1764403884 :: int64)
   \<and> sint (- 433411412 :: int64) < sint (2812979884 :: int64)
   \<and> sint (1764403884 :: int64) < sint (2812979884 :: int64)
   \<and> corner_order3 1764403884 (- 433411412) 2812979884 = ((0, 0, 1), (1, 0, 1))
   \<and> Noise3 1000 3000 2000 =
       simplex3 0 1 0 1764403884 (- 433411412) 2812979884 ((0, 0, 1), (1, 0, 1))
   \<and> skew3 3000 1000 2000 = (1, 0, 0, - 433411412, 1764403884, 2812979884)
   \<and> sint (- 433411412 :: int64) < sint (1764403884 :: int64)
   \<and> sint (1764403884 :: int64) < sint (2812979884 :: int64)
   \<and> corner_order3 (- 433411412) 1764403884 2812979884 = ((0, 0, 1), (0, 1, 1))
   \<and> Noise3 3000 1000 2000 =
       simplex3 1 0 0 (- 433411412) 1764403884 2812979884 ((0, 0, 1), (0, 1, 1))
   \<and> skew3 3000 2000 1000 = (1, 0, 0, - 433411412, 2812979884, 1764403884)
   \<and> sint (- 433411412 :: int64) < sint (2812979884 :: int64)
   \<and> sint (1764403884 :: int64) \<le> sint (2812979884 :: int64)
   \<and> sint (- 433411412 :: int64) < sint (1764403884 :: int64)
   \<and> corner_order3 (- 433411412) 2812979884 1764403884 = ((0, 1, 0), (0, 1, 1))
   \<and> Noise3 3000 2000 1000 =
       simplex3 1 0 0 (- 433411412) 2812979884 1764403884 ((0, 1, 0), (0, 1, 1))
   \<and> skew3 1000 2000 3000 = (0, 0, 1, 1764403884, 2812979884, - 433411412)
   \<and> sint (1764403884 :: int64) < sint (2812979884 :: int64)
   \<and> sint (- 433411412 :: int64) \<le> sint (2812979884 :: int64)
   \<and> sint (- 433411412 :: int64) \<le> sint (1764403884 :: int64)
   \<and> corner_order3 1764403884 2812979884 (- 433411412) = ((0, 1, 0), (1, 1, 0))
   \<and> Noise3 1000 2000 3000 =
       simplex3 0 0 1 1764403884 2812979884 (- 433411412) ((0, 1, 0), (1, 1, 0))"
  using Noise3_corner_order [of 2000 1000 3000 "2812979884" "1764403884" "- 433411412"]
    Noise3_corner_order [of 2000 3000 1000 "2812979884" "- 433411412" "1764403884"]
    Noise3_corner_order [of 1000 3000 2000 "1764403884" "- 433411412" "2812979884"]
    Noise3_corner_order [of 3000 1000 2000 "- 433411412" "1764403884" "2812979884"]
    Noise3_corner_order [of 3000 2000 1000 "- 433411412" "2812979884" "1764403884"]
    Noise3_corner_order [of 1000 2000 3000 "1764403884" "2812979884" "- 433411412"]
  by (simp add: skew3_def Let_def F3_def G3_def)

text \<open>
  C3. In \<open>Noise2\<close> and \<open>Noise3\<close> a corner whose falloff value \<open>t\<close> (the \<open>int32\<close> value that
  the code computes in Q.16) is at most 0 contributes exactly 0 to the sum: its
  contribution is 0 whatever the lattice indices \<open>i\<close>, \<open>j\<close>, \<open>k\<close> are, which are the only
  inputs of the lookups in the table for that corner. The first two conjuncts say that
  the evaluators rescale the sum of the contributions \<open>corner2\<close> and \<open>corner3\<close> of their
  corners.
\<close>

theorem corner_gating:
  "Noise2 x y = (case skew2 x y of (i, j, x0, y0) \<Rightarrow>
       simplex2 i j x0 y0 (corner_order2 x0 y0))
   \<and> Noise3 x y z = (case skew3 x y z of (i, j, k, x0, y0, z0) \<Rightarrow>
       simplex3 i j k x0 y0 z0 (corner_order3 x0 y0 z0))
   \<and> (sint (falloff2 u v) \<le> 0 \<longrightarrow> corner2 i j u v = Some 0)
   \<and> (sint (falloff3 u v w) \<le> 0 \<longrightarrow> corner3 i j k u v w = Some 0)"
proof -
  have a: "sint (falloff2 u v) \<le> 0 \<longrightarrow> corner2 i j u v = Some 0"
    by (simp add: corner2_def Let_def word_sless_alt)
  have b: "sint (falloff3 u v w) \<le> 0 \<longrightarrow> corner3 i j k u v w = Some 0"
    by (simp add: corner3_def Let_def word_sless_alt)
  from a b Noise2_simplex [of x y] Noise3_simplex [of x y z] show ?thesis
    by (simp only: simp_thms)
qed

text \<open>
  The middle corner of \<open>Noise2 0 0\<close> and the second corner of \<open>Noise3 0 0 0\<close> are outside
  the support of the kernel.
\<close>

theorem corner_gating_witness:
  "sint (falloff2 907633384 (- 3387333912)) \<le> 0
   \<and> corner2 0 1 907633384 (- 3387333912) = Some 0
   \<and> sint (falloff3 (- 3579139412) 715827884 715827884) \<le> 0
   \<and> corner3 1 0 0 (- 3579139412) 715827884 715827884 = Some 0"
  using corner_gating [where u = 907633384 and v = "- 3387333912" and i = 0 and j = 1]
    corner_gating [where u = "- 3579139412" and v = 715827884 and w = 715827884
      and i = 1 and j = 0 and k = 0]
  by (simp add: falloff2_def falloff3_def fix0_6_def)

end
